theory Spec2Isabelle
  imports Main "HOL-Library.AList"
begin

section \<open>JavaScript strings and numbers\<close>

text \<open>
  A JavaScript string is a sequence of UTF-16 code units. It is modelled as a
  \<^typ>\<open>string\<close>; a \<^typ>\<open>char\<close> stands for the code unit of the same number, so
  the model covers the code units U+0000 to U+00FF. \<open>length\<close>, \<open>slice\<close>,
  \<open>substring\<close>, \<open>substr\<close> and \<open>repeat\<close> count code units, as
  \<^const>\<open>length\<close>, \<^const>\<open>drop\<close>, \<^const>\<open>take\<close> and \<^const>\<open>replicate\<close> count
  list elements.
\<close>

definition isWhiteSpace :: "char \<Rightarrow> bool" where
  \<comment> \<open>the class \<open>\s\<close> of a regular expression, which is also what \<open>trim\<close> removes:
      TAB, LF, VT, FF, CR, SP and NBSP are its members below U+0100\<close>
  "isWhiteSpace c =
     (c \<in> set [CHR 0x09, CHR 0x0A, CHR 0x0B, CHR 0x0C, CHR 0x0D, CHR '' '', CHR 0xA0])"

definition isDigit :: "char \<Rightarrow> bool" where
  \<comment> \<open>the class \<open>\d\<close>\<close>
  "isDigit c = (c \<in> set ''0123456789'')"

definition isHexDigit :: "char \<Rightarrow> bool" where
  "isHexDigit c = (c \<in> set ''0123456789abcdefABCDEF'')"

definition trimStart :: "string \<Rightarrow> string" where
  "trimStart s = dropWhile isWhiteSpace s"

definition trim :: "string \<Rightarrow> string" where
  "trim s = rev (dropWhile isWhiteSpace (rev (dropWhile isWhiteSpace s)))"

definition removeWhiteSpace :: "string \<Rightarrow> string" where
  \<comment> \<open>\<open>replace(/\s/g, '')\<close>\<close>
  "removeWhiteSpace s = filter (\<lambda>c. \<not> isWhiteSpace c) s"

definition toLowerCase_unit :: "char \<Rightarrow> char" where
  \<comment> \<open>A to Z, and the capital letters U+00C0 to U+00DE without the sign U+00D7\<close>
  "toLowerCase_unit c =
     (let n = (of_char c :: nat)
      in if (65 \<le> n \<and> n \<le> 90) \<or> (192 \<le> n \<and> n \<le> 222 \<and> n \<noteq> 215)
         then char_of (n + 32) else c)"

definition toLowerCase :: "string \<Rightarrow> string" where
  "toLowerCase s = map toLowerCase_unit s"

definition toUpperCase_unit :: "char \<Rightarrow> char" where
  \<comment> \<open>the letters a to z; the program applies \<open>toUpperCase\<close> to the first letter of
      its own field names only\<close>
  "toUpperCase_unit c =
     (let n = (of_char c :: nat)
      in if 97 \<le> n \<and> n \<le> 122 then char_of (n - 32) else c)"

definition toUpperCase :: "string \<Rightarrow> string" where
  "toUpperCase s = map toUpperCase_unit s"

definition digitValue :: "char \<Rightarrow> int" where
  \<comment> \<open>the value of a digit in radix 10 or 16\<close>
  "digitValue c =
     (let n = (of_char c :: int)
      in if 48 \<le> n \<and> n \<le> 57 then n - 48
         else if 97 \<le> n \<and> n \<le> 102 then n - 87
         else if 65 \<le> n \<and> n \<le> 70 then n - 55
         else 0)"

definition digitsValue :: "int \<Rightarrow> string \<Rightarrow> int" where
  \<comment> \<open>the number that a string of digits writes in the given radix\<close>
  "digitsValue radix ds = foldl (\<lambda>a c. radix * a + digitValue c) 0 ds"

definition parseInt :: "string \<Rightarrow> int option" where
  \<comment> \<open>\<open>parseInt(string)\<close> with no radix argument: leading white space is skipped, a
      sign is read, a prefix \<open>0x\<close> or \<open>0X\<close> selects radix 16, and the longest run of
      digits is taken. \<open>None\<close> is \<open>NaN\<close>. The result is the integer that the digits
      write; the runtime holds it as a double, which is the same number below \<open>2^53\<close>.\<close>
  "parseInt string =
     (let s = trimStart string;
          negative = (take 1 s = ''-'');
          s1 = (if take 1 s = ''-'' \<or> take 1 s = ''+'' then drop 1 s else s);
          hex = (take 2 s1 = ''0x'' \<or> take 2 s1 = ''0X'');
          ds = (if hex then takeWhile isHexDigit (drop 2 s1) else takeWhile isDigit s1);
          n = digitsValue (if hex then 16 else 10) ds
      in if ds = [] then None else Some (if negative then - n else n))"

definition num_lt :: "int option \<Rightarrow> int option \<Rightarrow> bool" where
  \<comment> \<open>\<open><\<close> on numbers: false when an operand is \<open>NaN\<close>\<close>
  "num_lt a b = (case a of None \<Rightarrow> False | Some x \<Rightarrow> (case b of None \<Rightarrow> False | Some y \<Rightarrow> x < y))"

definition num_eq :: "int option \<Rightarrow> int option \<Rightarrow> bool" where
  \<comment> \<open>\<open>===\<close> on numbers: false when an operand is \<open>NaN\<close>\<close>
  "num_eq a b = (case a of None \<Rightarrow> False | Some x \<Rightarrow> (case b of None \<Rightarrow> False | Some y \<Rightarrow> x = y))"

definition remainder :: "int \<Rightarrow> int \<Rightarrow> int" where
  \<comment> \<open>\<open>%\<close> on integers: the result has the sign of the dividend\<close>
  "remainder a b = sgn a * (\<bar>a\<bar> mod \<bar>b\<bar>)"

datatype parsed_number =
    NaN
  | Infinity (negative: bool)
  | Decimal (negative: bool) (mantissa: int) (exponent: int)

text \<open>
  \<^const>\<open>Decimal\<close> \<open>neg m e\<close> is the decimal literal of value \<open>m * 10^e\<close>, negated when
  \<open>neg\<close> holds; the runtime rounds it to the nearest double, ties to even.
\<close>

definition exponentPart :: "string \<Rightarrow> int" where
  \<comment> \<open>an \<open>ExponentPart\<close> at the head of the string, or 0 when there is none\<close>
  "exponentPart r =
     (if take 1 r = ''e'' \<or> take 1 r = ''E'' then
        (let t = drop 1 r;
             t1 = (if take 1 t = ''-'' \<or> take 1 t = ''+'' then drop 1 t else t);
             ds = takeWhile isDigit t1
         in if ds = [] then 0
            else if take 1 t = ''-'' then - digitsValue 10 ds
            else digitsValue 10 ds)
      else 0)"

definition parseFloat :: "string \<Rightarrow> parsed_number" where
  \<comment> \<open>\<open>parseFloat(string)\<close>: leading white space is skipped and the longest prefix
      that is a \<open>StrDecimalLiteral\<close> is read; \<open>NaN\<close> when no prefix is one\<close>
  "parseFloat string =
     (let s = trimStart string;
          neg = (take 1 s = ''-'');
          u = (if take 1 s = ''-'' \<or> take 1 s = ''+'' then drop 1 s else s)
      in if take 8 u = ''Infinity'' then Infinity neg
         else
           (let ip = takeWhile isDigit u;
                r1 = dropWhile isDigit u;
                fp = (if take 1 r1 = ''.'' then takeWhile isDigit (drop 1 r1) else []);
                r2 = (if take 1 r1 = ''.'' then dropWhile isDigit (drop 1 r1) else r1)
            in if ip = [] \<and> fp = [] then NaN
               else Decimal neg (digitsValue 10 (ip @ fp)) (exponentPart r2 - int (length fp))))"

definition isNaN :: "parsed_number \<Rightarrow> bool" where
  "isNaN num = (case num of NaN \<Rightarrow> True | Infinity neg \<Rightarrow> False | Decimal neg m e \<Rightarrow> False)"

definition greaterThanZero :: "parsed_number \<Rightarrow> bool" where
  \<comment> \<open>\<open>num > 0\<close> on the double that the literal rounds to: a positive literal rounds
      to 0 exactly when its value is at most \<open>2^-1075\<close>, half the least double\<close>
  "greaterThanZero num =
     (case num of
        NaN \<Rightarrow> False
      | Infinity neg \<Rightarrow> \<not> neg
      | Decimal neg m e \<Rightarrow>
          \<not> neg \<and> (if 0 \<le> e then 0 < m else 10 ^ nat (- e) < m * 2 ^ 1075))"

function decimalDigits :: "int \<Rightarrow> string" where
  "decimalDigits n =
     (if n < 10 then [''0123456789'' ! nat n]
      else decimalDigits (n div 10) @ [''0123456789'' ! nat (n mod 10)])"
  by pat_completeness auto
termination
  by (relation "measure nat") auto

declare decimalDigits.simps [simp del]

definition string_of_int :: "int \<Rightarrow> string" where
  \<comment> \<open>an integer in a template literal: its decimal digits, after \<open>-\<close> when negative\<close>
  "string_of_int i = (if i < 0 then ''-'' @ decimalDigits (- i) else decimalDigits i)"

section \<open>Server-side validation functions\<close>

definition validateCardNumber :: "string \<Rightarrow> bool" where
  "validateCardNumber v =
     (let cleaned = removeWhiteSpace v
      in length cleaned = 16 \<and> list_all isDigit cleaned)"

definition validateCVC :: "string \<Rightarrow> bool" where
  "validateCVC v = ((length v = 3 \<or> length v = 4) \<and> list_all isDigit v)"

record CurrentDate =
  getFullYear :: int
  getMonth :: int

definition matchesExpiryFormat :: "string \<Rightarrow> bool" where
  \<comment> \<open>\<open>/^\d{2}\/\d{2}$/\<close>\<close>
  "matchesExpiryFormat v =
     (length v = 5 \<and> list_all isDigit (take 2 v) \<and> take 1 (drop 2 v) = ''/''
      \<and> list_all isDigit (drop 3 v))"

definition validateExpiryDate :: "CurrentDate \<Rightarrow> string \<Rightarrow> bool" where
  \<comment> \<open>the first argument is what \<open>new Date()\<close> returns\<close>
  "validateExpiryDate currentDate v =
     (if \<not> matchesExpiryFormat v then False
      else
        (let month = takeWhile (\<lambda>c. c \<noteq> CHR ''/'') v;
             year = drop 1 (dropWhile (\<lambda>c. c \<noteq> CHR ''/'') v);
             currentYear = Some (remainder (getFullYear currentDate) 100);
             currentMonth = Some (getMonth currentDate + 1);
             expMonth = parseInt month;
             expYear = parseInt year
         in if num_lt expMonth (Some 1) \<or> num_lt (Some 12) expMonth then False
            else if num_lt expYear currentYear
                    \<or> (num_eq expYear currentYear \<and> num_lt expMonth currentMonth) then False
            else True))"

definition validateAmount :: "string \<Rightarrow> bool" where
  "validateAmount v = (let num = parseFloat v in \<not> isNaN num \<and> greaterThanZero num)"

definition notSpaceOrAt :: "string \<Rightarrow> bool" where
  \<comment> \<open>\<open>[^\s@]+\<close>: a non-empty run of code units other than white space and \<open>@\<close>\<close>
  "notSpaceOrAt s = (s \<noteq> [] \<and> list_all (\<lambda>c. \<not> isWhiteSpace c \<and> c \<noteq> CHR ''@'') s)"

definition validateEmail :: "string \<Rightarrow> bool" where
  \<comment> \<open>\<open>/^[^\s@]+@[^\s@]+\.[^\s@]+$/\<close>: the string splits at some \<open>@\<close> and, after it,
      at some dot into three runs of \<open>[^\s@]+\<close>\<close>
  "validateEmail v =
     list_ex (\<lambda>i. take 1 (drop i v) = ''@'' \<and> notSpaceOrAt (take i v)
                \<and> (let r = drop (Suc i) v
                    in list_ex (\<lambda>j. take 1 (drop j r) = ''.'' \<and> notSpaceOrAt (take j r)
                                   \<and> notSpaceOrAt (drop (Suc j) r))
                         [0..<length r]))
       [0..<length v]"

definition validatePostalCode :: "string \<Rightarrow> bool" where
  \<comment> \<open>\<open>/^\d{5}(-\d{4})?$/\<close>\<close>
  "validatePostalCode v =
     ((length v = 5 \<and> list_all isDigit v)
      \<or> (length v = 10 \<and> list_all isDigit (take 5 v) \<and> take 1 (drop 5 v) = ''-''
          \<and> list_all isDigit (drop 6 v)))"

definition validateRequired :: "string \<Rightarrow> bool" where
  "validateRequired v = (trim v \<noteq> [])"


section \<open>Server-side form validation\<close>

record PaymentFormData =
  cardNumber :: string
  cvc :: string
  expiryDate :: string
  amount :: string
  firstName :: string
  lastName :: string
  email :: string
  city :: string
  state :: string
  postalCode :: string
  message :: string

record ValidationError =
  err_field :: string
  err_message :: string

text \<open>An entry of the array \<open>validations\<close>.\<close>

record Validation =
  v_field :: string
  v_value :: string
  v_validator :: "string \<Rightarrow> bool"
  v_message :: string
  v_required :: bool

definition validations :: "CurrentDate \<Rightarrow> PaymentFormData \<Rightarrow> Validation list" where
  "validations currentDate formData =
     [\<lparr>v_field = ''cardNumber'', v_value = cardNumber formData, v_validator = validateCardNumber,
        v_message = ''Card number must be 16 digits'', v_required = True\<rparr>,
      \<lparr>v_field = ''cvc'', v_value = cvc formData, v_validator = validateCVC,
        v_message = ''CVC must be 3-4 digits'', v_required = True\<rparr>,
      \<lparr>v_field = ''expiryDate'', v_value = expiryDate formData,
        v_validator = validateExpiryDate currentDate,
        v_message = ''Expiry date must be valid and in the future (MM/YY)'', v_required = True\<rparr>,
      \<lparr>v_field = ''amount'', v_value = amount formData, v_validator = validateAmount,
        v_message = ''Amount must be a valid positive number'', v_required = True\<rparr>,
      \<lparr>v_field = ''firstName'', v_value = firstName formData, v_validator = validateRequired,
        v_message = ''First name is required'', v_required = True\<rparr>,
      \<lparr>v_field = ''lastName'', v_value = lastName formData, v_validator = validateRequired,
        v_message = ''Last name is required'', v_required = True\<rparr>,
      \<lparr>v_field = ''email'', v_value = email formData, v_validator = validateEmail,
        v_message = ''Please enter a valid email address'', v_required = True\<rparr>,
      \<lparr>v_field = ''city'', v_value = city formData, v_validator = validateRequired,
        v_message = ''City is required'', v_required = True\<rparr>,
      \<lparr>v_field = ''state'', v_value = state formData, v_validator = validateRequired,
        v_message = ''State is required'', v_required = True\<rparr>,
      \<lparr>v_field = ''postalCode'', v_value = postalCode formData,
        v_validator = validatePostalCode,
        v_message = ''Postal code must be in format 12345 or 12345-6789'', v_required = True\<rparr>]"

definition requiredMessage :: "string \<Rightarrow> string" where
  \<comment> \<open>\<open>`${field.charAt(0).toUpperCase() + field.slice(1)} is required`\<close>\<close>
  "requiredMessage field = toUpperCase (take 1 field) @ drop 1 field @ '' is required''"

definition validate_entry :: "ValidationError list \<Rightarrow> Validation \<Rightarrow> ValidationError list" where
  \<comment> \<open>the body of the \<open>forEach\<close>: \<open>errors\<close> after the entry has been looked at\<close>
  "validate_entry errors v =
     (if v_required v \<and> \<not> validateRequired (v_value v)
      then errors @ [\<lparr>err_field = v_field v, err_message = requiredMessage (v_field v)\<rparr>]
      else if v_value v \<noteq> [] \<and> \<not> v_validator v (v_value v)
      then errors @ [\<lparr>err_field = v_field v, err_message = v_message v\<rparr>]
      else errors)"

definition validatePaymentForm :: "CurrentDate \<Rightarrow> PaymentFormData \<Rightarrow> ValidationError list" where
  "validatePaymentForm currentDate formData =
     foldl validate_entry [] (validations currentDate formData)"

section \<open>Input sanitization\<close>

definition sanitizeInput :: "string \<Rightarrow> string" where
  "sanitizeInput input =
     take 255 (filter (\<lambda>c. c \<notin> set [CHR ''<'', CHR ''>'', CHR 0x22, CHR 0x27]) (trim input))"

definition sanitizeEmail :: "string \<Rightarrow> string" where
  "sanitizeEmail e = take 254 (trim (toLowerCase e))"

definition sanitizeNumeric :: "string \<Rightarrow> string" where
  "sanitizeNumeric input =
     take 20 (filter (\<lambda>c. isDigit c \<or> c = CHR ''.'' \<or> c = CHR ''-'') input)"

definition sanitizedData :: "PaymentFormData \<Rightarrow> PaymentFormData" where
  \<comment> \<open>the object \<open>sanitizedData\<close> of the submission handler; \<open>formData.message || ''\<close>
      is \<open>formData.message\<close> for a string\<close>
  "sanitizedData formData =
     \<lparr>cardNumber = sanitizeNumeric (cardNumber formData),
      cvc = sanitizeNumeric (cvc formData),
      expiryDate = sanitizeInput (expiryDate formData),
      amount = sanitizeNumeric (amount formData),
      firstName = sanitizeInput (firstName formData),
      lastName = sanitizeInput (lastName formData),
      email = sanitizeEmail (email formData),
      city = sanitizeInput (city formData),
      state = sanitizeInput (state formData),
      postalCode = sanitizeNumeric (postalCode formData),
      message = sanitizeInput (message formData)\<rparr>"


section \<open>The data model\<close>

text \<open>
  Modelled from the spec: the types \<open>User\<close>, \<open>InsertUser\<close>, \<open>Payment\<close>,
  \<open>InsertPayment\<close> and \<open>UpdatePayment\<close>, which the program imports from its shared
  schema. A payment has the columns of the table \<open>payments\<close>; \<open>InsertPayment\<close> has
  neither \<open>id\<close> nor the two timestamps, and its \<open>message\<close> and \<open>status\<close> may be
  absent; \<open>UpdatePayment\<close> is a partial record of the columns that an update may set,
  which leaves out \<open>id\<close>, \<open>transactionId\<close>, the masked \<open>cardNumber\<close>, \<open>createdAt\<close>
  and \<open>updatedAt\<close>, as the invariants of the data model require.
  An absent property is \<^const>\<open>None\<close>, and so is the value \<open>null\<close> of a stored
  \<open>message\<close>. A \<open>Date\<close> is its time value, the milliseconds since the epoch.
\<close>

record User =
  user_id :: int
  username :: string
  password :: string

record InsertUser =
  i_username :: string
  i_password :: string

record PartialInsertUser =
  u_username :: "string option"
  u_password :: "string option"

record InsertPayment =
  i_cardNumber :: string
  i_cvc :: string
  i_expiryDate :: string
  i_amount :: string
  i_firstName :: string
  i_lastName :: string
  i_email :: string
  i_city :: string
  i_state :: string
  i_postalCode :: string
  i_message :: "string option"
  i_transactionId :: string
  i_status :: "string option"

record Payment =
  p_id :: int
  p_transactionId :: string
  p_cardNumber :: string
  p_cvc :: string
  p_expiryDate :: string
  p_amount :: string
  p_firstName :: string
  p_lastName :: string
  p_email :: string
  p_city :: string
  p_state :: string
  p_postalCode :: string
  p_message :: "string option"
  p_status :: string
  p_createdAt :: int
  p_updatedAt :: int

record UpdatePayment =
  u_cvc :: "string option"
  u_expiryDate :: "string option"
  u_amount :: "string option"
  u_firstName :: "string option"
  u_lastName :: "string option"
  u_email :: "string option"
  u_city :: "string option"
  u_state :: "string option"
  u_postalCode :: "string option"
  u_message :: "string option option"
  u_status :: "string option"

definition or_else :: "'a option \<Rightarrow> 'a \<Rightarrow> 'a" where
  \<comment> \<open>the spread of an optional property over a field: the property where present\<close>
  "or_else x d = (case x of None \<Rightarrow> d | Some v \<Rightarrow> v)"

definition spreadUpdate :: "Payment \<Rightarrow> UpdatePayment \<Rightarrow> Payment" where
  \<comment> \<open>\<open>{ ...existingPayment, ...paymentData }\<close>\<close>
  "spreadUpdate existing paymentData =
     existing
      \<lparr>p_cvc := or_else (u_cvc paymentData) (p_cvc existing),
       p_expiryDate := or_else (u_expiryDate paymentData) (p_expiryDate existing),
       p_amount := or_else (u_amount paymentData) (p_amount existing),
       p_firstName := or_else (u_firstName paymentData) (p_firstName existing),
       p_lastName := or_else (u_lastName paymentData) (p_lastName existing),
       p_email := or_else (u_email paymentData) (p_email existing),
       p_city := or_else (u_city paymentData) (p_city existing),
       p_state := or_else (u_state paymentData) (p_state existing),
       p_postalCode := or_else (u_postalCode paymentData) (p_postalCode existing),
       p_message := or_else (u_message paymentData) (p_message existing),
       p_status := or_else (u_status paymentData) (p_status existing)\<rparr>"

definition truthy :: "string option \<Rightarrow> bool" where
  \<comment> \<open>an optional string is falsy when it is absent, \<open>null\<close> or empty\<close>
  "truthy x = (case x of None \<Rightarrow> False | Some v \<Rightarrow> v \<noteq> [])"

section \<open>The in-memory storage\<close>

text \<open>
  A \<open>Map\<close> keeps its entries in insertion order: \<open>set\<close> replaces the value of a
  present key in place and appends an absent one, which is \<^const>\<open>AList.update\<close>;
  \<open>get\<close> is \<^const>\<open>map_of\<close>, \<open>delete\<close> is \<^const>\<open>AList.delete\<close> and \<open>values()\<close>
  lists the second components. An id is a JavaScript number, an integer here.
\<close>

record MemStorage =
  users :: "(int \<times> User) list"
  payments :: "(int \<times> Payment) list"
  currentUserId :: int
  currentPaymentId :: int

definition MemStorage_new :: MemStorage where
  \<comment> \<open>the constructor\<close>
  "MemStorage_new = \<lparr>users = [], payments = [], currentUserId = 1, currentPaymentId = 1\<rparr>"

definition maskCardNumber :: "string \<Rightarrow> string" where
  "maskCardNumber number =
     (let cleaned = removeWhiteSpace number
      in if length cleaned < 4 then replicate (length cleaned) CHR ''*''
         else
           (let lastFour = drop (length cleaned - 4) cleaned;
                masked = replicate (length cleaned - 4) CHR ''*'' @ lastFour
            in masked))"

definition Mem_createUser :: "MemStorage \<Rightarrow> InsertUser \<Rightarrow> User \<times> MemStorage" where
  "Mem_createUser this insertUser =
     (let ident = currentUserId this;
          user = \<lparr>user_id = ident, username = i_username insertUser,
                  password = i_password insertUser\<rparr>
      in (user, this\<lparr>currentUserId := ident + 1, users := AList.update ident user (users this)\<rparr>))"

definition Mem_getUser :: "MemStorage \<Rightarrow> int \<Rightarrow> User option" where
  "Mem_getUser this ident = map_of (users this) ident"

definition Mem_getUserByUsername :: "MemStorage \<Rightarrow> string \<Rightarrow> User option" where
  "Mem_getUserByUsername this name =
     find (\<lambda>user. username user = name) (map snd (users this))"

definition Mem_updateUser ::
  "MemStorage \<Rightarrow> int \<Rightarrow> PartialInsertUser \<Rightarrow> User option \<times> MemStorage" where
  "Mem_updateUser this ident userData =
     (case map_of (users this) ident of
        None \<Rightarrow> (None, this)
      | Some existingUser \<Rightarrow>
          (let updatedUser =
                 existingUser
                  \<lparr>username := or_else (u_username userData) (username existingUser),
                   password := or_else (u_password userData) (password existingUser)\<rparr>
           in (Some updatedUser, this\<lparr>users := AList.update ident updatedUser (users this)\<rparr>)))"

definition Mem_deleteUser :: "MemStorage \<Rightarrow> int \<Rightarrow> bool \<times> MemStorage" where
  "Mem_deleteUser this ident =
     (map_of (users this) ident \<noteq> None, this\<lparr>users := AList.delete ident (users this)\<rparr>)"

definition Mem_createPayment :: "MemStorage \<Rightarrow> InsertPayment \<Rightarrow> int \<Rightarrow> Payment \<times> MemStorage" where
  \<comment> \<open>the last argument is what \<open>new Date()\<close> returns\<close>
  "Mem_createPayment this insertPayment now =
     (let ident = currentPaymentId this;
          maskedCardNumber = maskCardNumber (i_cardNumber insertPayment);
          payment =
            \<lparr>p_id = ident,
             p_transactionId = i_transactionId insertPayment,
             p_cardNumber = maskedCardNumber,
             p_cvc = i_cvc insertPayment,
             p_expiryDate = i_expiryDate insertPayment,
             p_amount = i_amount insertPayment,
             p_firstName = i_firstName insertPayment,
             p_lastName = i_lastName insertPayment,
             p_email = i_email insertPayment,
             p_city = i_city insertPayment,
             p_state = i_state insertPayment,
             p_postalCode = i_postalCode insertPayment,
             p_message = (if truthy (i_message insertPayment) then i_message insertPayment else None),
             p_status = (case i_status insertPayment of
                           None \<Rightarrow> ''pending''
                         | Some status \<Rightarrow> if status = [] then ''pending'' else status),
             p_createdAt = now,
             p_updatedAt = now\<rparr>
      in (payment,
          this\<lparr>currentPaymentId := ident + 1, payments := AList.update ident payment (payments this)\<rparr>))"

definition Mem_getPayment :: "MemStorage \<Rightarrow> int \<Rightarrow> Payment option" where
  "Mem_getPayment this ident = map_of (payments this) ident"

definition Mem_getPaymentByTransactionId :: "MemStorage \<Rightarrow> string \<Rightarrow> Payment option" where
  "Mem_getPaymentByTransactionId this transactionId =
     find (\<lambda>payment. p_transactionId payment = transactionId) (map snd (payments this))"

definition Mem_updatePayment ::
  "MemStorage \<Rightarrow> int \<Rightarrow> UpdatePayment \<Rightarrow> int \<Rightarrow> Payment option \<times> MemStorage" where
  \<comment> \<open>the last argument is what \<open>new Date()\<close> returns\<close>
  "Mem_updatePayment this ident paymentData now =
     (case map_of (payments this) ident of
        None \<Rightarrow> (None, this)
      | Some existingPayment \<Rightarrow>
          (let updatedPayment = (spreadUpdate existingPayment paymentData)\<lparr>p_updatedAt := now\<rparr>
           in (Some updatedPayment,
               this\<lparr>payments := AList.update ident updatedPayment (payments this)\<rparr>)))"

definition Mem_deletePayment :: "MemStorage \<Rightarrow> int \<Rightarrow> bool \<times> MemStorage" where
  "Mem_deletePayment this ident =
     (map_of (payments this) ident \<noteq> None, this\<lparr>payments := AList.delete ident (payments this)\<rparr>)"

definition Mem_getAllPayments :: "MemStorage \<Rightarrow> Payment list" where
  "Mem_getAllPayments this = map snd (payments this)"

definition Mem_getPaymentsByEmail :: "MemStorage \<Rightarrow> string \<Rightarrow> Payment list" where
  "Mem_getPaymentsByEmail this e =
     filter (\<lambda>payment. toLowerCase (p_email payment) = toLowerCase e) (map snd (payments this))"

definition Mem_getPaymentsByStatus :: "MemStorage \<Rightarrow> string \<Rightarrow> Payment list" where
  "Mem_getPaymentsByStatus this status =
     filter (\<lambda>payment. p_status payment = status) (map snd (payments this))"


text \<open>The operations that change the in-memory storage, and a run of them.\<close>

datatype MemOp =
    CreateUserOp InsertUser
  | UpdateUserOp int PartialInsertUser
  | DeleteUserOp int
  | CreatePaymentOp InsertPayment int
  | UpdatePaymentOp int UpdatePayment int
  | DeletePaymentOp int

fun Mem_exec :: "MemStorage \<Rightarrow> MemOp \<Rightarrow> MemStorage" where
  "Mem_exec this (CreateUserOp insertUser) = snd (Mem_createUser this insertUser)"
| "Mem_exec this (UpdateUserOp ident userData) = snd (Mem_updateUser this ident userData)"
| "Mem_exec this (DeleteUserOp ident) = snd (Mem_deleteUser this ident)"
| "Mem_exec this (CreatePaymentOp insertPayment now) =
     snd (Mem_createPayment this insertPayment now)"
| "Mem_exec this (UpdatePaymentOp ident paymentData now) =
     snd (Mem_updatePayment this ident paymentData now)"
| "Mem_exec this (DeletePaymentOp ident) = snd (Mem_deletePayment this ident)"

definition Mem_run :: "MemStorage \<Rightarrow> MemOp list \<Rightarrow> MemStorage" where
  "Mem_run this ops = foldl Mem_exec this ops"

fun clock_readings :: "MemOp \<Rightarrow> int list" where
  \<comment> \<open>what \<open>new Date()\<close> returned while the operation ran\<close>
  "clock_readings (CreatePaymentOp insertPayment now) = [now]"
| "clock_readings (UpdatePaymentOp ident paymentData now) = [now]"
| "clock_readings other = []"

fun created_ids :: "MemStorage \<Rightarrow> MemOp list \<Rightarrow> int list" where
  \<comment> \<open>the ids of the payments that the calls of \<open>createPayment\<close> in a run return\<close>
  "created_ids this [] = []"
| "created_ids this (CreatePaymentOp insertPayment now # ops) =
     p_id (fst (Mem_createPayment this insertPayment now))
       # created_ids (Mem_exec this (CreatePaymentOp insertPayment now)) ops"
| "created_ids this (other # ops) = created_ids (Mem_exec this other) ops"

section \<open>The database storage\<close>

text \<open>
  Modelled from the spec: the table \<open>payments(id, transactionId UNIQUE, ...)\<close> of the
  persisted schema and the relational engine behind \<open>db\<close>. A row gets its \<open>id\<close> from
  the sequence of the table and its two timestamps from the clock of the engine; an
  insert that would repeat an \<open>id\<close> or a \<open>transactionId\<close> is refused and the statement
  throws; \<open>eq\<close> is equality of the column with the value. Rows are listed in the order
  of the table.
\<close>

record DatabaseStorage =
  payments_rows :: "Payment list"
  payments_id_seq :: int

datatype StorageError = UniqueViolation

definition Db_maskCardNumber :: "string \<Rightarrow> string" where
  "Db_maskCardNumber number =
     (let cleaned = removeWhiteSpace number
      in if length cleaned < 4 then replicate (length cleaned) CHR ''*''
         else
           (let lastFour = drop (length cleaned - 4) cleaned;
                masked = replicate (length cleaned - 4) CHR ''*'' @ lastFour
            in masked))"

definition Db_createPayment ::
  "DatabaseStorage \<Rightarrow> InsertPayment \<Rightarrow> int \<Rightarrow> (StorageError + Payment) \<times> DatabaseStorage" where
  \<comment> \<open>the last argument is the clock of the engine at the insert\<close>
  "Db_createPayment this insertPayment now =
     (let maskedCardNumber = Db_maskCardNumber (i_cardNumber insertPayment);
          ident = payments_id_seq this;
          row =
            \<lparr>p_id = ident,
             p_transactionId = i_transactionId insertPayment,
             p_cardNumber = maskedCardNumber,
             p_cvc = i_cvc insertPayment,
             p_expiryDate = i_expiryDate insertPayment,
             p_amount = i_amount insertPayment,
             p_firstName = i_firstName insertPayment,
             p_lastName = i_lastName insertPayment,
             p_email = i_email insertPayment,
             p_city = i_city insertPayment,
             p_state = i_state insertPayment,
             p_postalCode = i_postalCode insertPayment,
             p_message = (if truthy (i_message insertPayment) then i_message insertPayment else None),
             p_status = (case i_status insertPayment of
                           None \<Rightarrow> ''pending''
                         | Some status \<Rightarrow> if status = [] then ''pending'' else status),
             p_createdAt = now,
             p_updatedAt = now\<rparr>;
          this1 = this\<lparr>payments_id_seq := ident + 1\<rparr>
      in if list_ex (\<lambda>r. p_id r = ident \<or> p_transactionId r = p_transactionId row)
              (payments_rows this)
         then (Inl UniqueViolation, this1)
         else (Inr row, this1\<lparr>payments_rows := payments_rows this @ [row]\<rparr>))"

definition first_row :: "Payment list \<Rightarrow> Payment option" where
  \<comment> \<open>\<open>const [payment] = rows; return payment || undefined\<close>\<close>
  "first_row rs = (case rs of [] \<Rightarrow> None | r # rest \<Rightarrow> Some r)"

definition Db_getPayment :: "DatabaseStorage \<Rightarrow> int \<Rightarrow> Payment option" where
  "Db_getPayment this ident = first_row (filter (\<lambda>r. p_id r = ident) (payments_rows this))"

definition Db_getPaymentByTransactionId :: "DatabaseStorage \<Rightarrow> string \<Rightarrow> Payment option" where
  "Db_getPaymentByTransactionId this transactionId =
     first_row (filter (\<lambda>r. p_transactionId r = transactionId) (payments_rows this))"

definition Db_updatePayment ::
  "DatabaseStorage \<Rightarrow> int \<Rightarrow> UpdatePayment \<Rightarrow> int \<Rightarrow> Payment option \<times> DatabaseStorage" where
  \<comment> \<open>the last argument is what \<open>new Date()\<close> returns\<close>
  "Db_updatePayment this ident paymentData now =
     (let rows' = map (\<lambda>r. if p_id r = ident
                              then (spreadUpdate r paymentData)\<lparr>p_updatedAt := now\<rparr> else r)
                    (payments_rows this)
      in (first_row (filter (\<lambda>r. p_id r = ident) rows'), this\<lparr>payments_rows := rows'\<rparr>))"

definition Db_deletePayment :: "DatabaseStorage \<Rightarrow> int \<Rightarrow> bool \<times> DatabaseStorage" where
  "Db_deletePayment this ident =
     (0 < length (filter (\<lambda>r. p_id r = ident) (payments_rows this)),
      this\<lparr>payments_rows := filter (\<lambda>r. p_id r \<noteq> ident) (payments_rows this)\<rparr>)"

definition Db_getAllPayments :: "DatabaseStorage \<Rightarrow> Payment list" where
  "Db_getAllPayments this = payments_rows this"

definition Db_getPaymentsByEmail :: "DatabaseStorage \<Rightarrow> string \<Rightarrow> Payment list" where
  "Db_getPaymentsByEmail this e = filter (\<lambda>r. p_email r = e) (payments_rows this)"

definition Db_getPaymentsByStatus :: "DatabaseStorage \<Rightarrow> string \<Rightarrow> Payment list" where
  "Db_getPaymentsByStatus this status = filter (\<lambda>r. p_status r = status) (payments_rows this)"

section \<open>The storage in use\<close>

text \<open>
  \<open>storage\<close> is a \<open>DatabaseStorage\<close> when the environment names a database and a
  \<open>MemStorage\<close> otherwise. The in-memory operations do not throw.
\<close>

datatype Storage = Mem MemStorage | Db DatabaseStorage

fun storage_createPayment ::
  "Storage \<Rightarrow> InsertPayment \<Rightarrow> int \<Rightarrow> (StorageError + Payment) \<times> Storage" where
  "storage_createPayment (Mem m) insertPayment now =
     (case Mem_createPayment m insertPayment now of (payment, m') \<Rightarrow> (Inr payment, Mem m'))"
| "storage_createPayment (Db d) insertPayment now =
     (case Db_createPayment d insertPayment now of (result, d') \<Rightarrow> (result, Db d'))"

fun storage_getPayment :: "Storage \<Rightarrow> int \<Rightarrow> Payment option" where
  "storage_getPayment (Mem m) ident = Mem_getPayment m ident"
| "storage_getPayment (Db d) ident = Db_getPayment d ident"

fun storage_updatePayment ::
  "Storage \<Rightarrow> int \<Rightarrow> UpdatePayment \<Rightarrow> int \<Rightarrow> Payment option \<times> Storage" where
  "storage_updatePayment (Mem m) ident paymentData now =
     (case Mem_updatePayment m ident paymentData now of (result, m') \<Rightarrow> (result, Mem m'))"
| "storage_updatePayment (Db d) ident paymentData now =
     (case Db_updatePayment d ident paymentData now of (result, d') \<Rightarrow> (result, Db d'))"

fun storage_deletePayment :: "Storage \<Rightarrow> int \<Rightarrow> bool \<times> Storage" where
  "storage_deletePayment (Mem m) ident =
     (case Mem_deletePayment m ident of (result, m') \<Rightarrow> (result, Mem m'))"
| "storage_deletePayment (Db d) ident =
     (case Db_deletePayment d ident of (result, d') \<Rightarrow> (result, Db d'))"

fun storage_getPaymentsByEmail :: "Storage \<Rightarrow> string \<Rightarrow> Payment list" where
  "storage_getPaymentsByEmail (Mem m) e = Mem_getPaymentsByEmail m e"
| "storage_getPaymentsByEmail (Db d) e = Db_getPaymentsByEmail d e"


section \<open>The request handlers\<close>

text \<open>
  A response is its status code, 200 when the handler sets none, and its JSON body.
  \<^item> \<open>Errors message errors\<close> is \<open>{success: false, message, errors}\<close>;
  \<^item> \<open>Failure message\<close> is \<open>{success: false, message}\<close>;
  \<^item> \<open>PaymentProcessed message transactionId paymentId amount email name status\<close> is
    the success body of a submission;
  \<^item> \<open>StatusUpdated message id transactionId status updatedAt\<close> is the success body
    of a status update.
\<close>

datatype Body =
    Errors string "ValidationError list"
  | Failure string
  | PaymentProcessed string string int string string string string
  | StatusUpdated string int string string int

record Response =
  statusCode :: nat
  body :: Body

text \<open>
  What a run of the submission handler meets from outside: the date that
  \<open>validateExpiryDate\<close> sees, \<open>Date.now()\<close>, the text \<open>Math.random().toString(36)\<close>,
  the clock when the payment is created, what the other requests do to the shared
  storage while the handler awaits the delay of the simulated gateway, the outcome of
  \<open>Math.random() < 0.1\<close>, and the clock when the payment is updated. The creation and
  the update are two separate calls on the storage; a handler that deletes or changes
  payments may run between them.
\<close>

record Effects =
  validationDate :: CurrentDate
  dateNow :: int
  randomText :: string
  createdClock :: int
  duringDelay :: "Storage \<Rightarrow> Storage"
  shouldFail :: bool
  updatedClock :: int

definition substr :: "string \<Rightarrow> nat \<Rightarrow> nat \<Rightarrow> string" where
  "substr s start len = take len (drop start s)"

definition transactionId_of :: "int \<Rightarrow> string \<Rightarrow> string" where
  \<comment> \<open>\<open>`TXN-${Date.now()}-${Math.random().toString(36).substr(2, 9)}`\<close>, from
      \<open>Date.now()\<close> and \<open>Math.random().toString(36)\<close>\<close>
  "transactionId_of now randomText36 =
     ''TXN-'' @ string_of_int now @ ''-'' @ substr randomText36 2 9"

definition statusOnly :: "string \<Rightarrow> UpdatePayment" where
  \<comment> \<open>the object \<open>{ status }\<close>\<close>
  "statusOnly status =
     \<lparr>u_cvc = None, u_expiryDate = None, u_amount = None,
      u_firstName = None, u_lastName = None, u_email = None, u_city = None, u_state = None,
      u_postalCode = None, u_message = None, u_status = Some status\<rparr>"

definition pendingPayment :: "PaymentFormData \<Rightarrow> string \<Rightarrow> InsertPayment" where
  \<comment> \<open>\<open>{ ...sanitizedData, transactionId, status: 'pending' }\<close>\<close>
  "pendingPayment sanitized transactionId =
     \<lparr>i_cardNumber = cardNumber sanitized, i_cvc = cvc sanitized,
      i_expiryDate = expiryDate sanitized, i_amount = amount sanitized,
      i_firstName = firstName sanitized, i_lastName = lastName sanitized,
      i_email = email sanitized, i_city = city sanitized, i_state = state sanitized,
      i_postalCode = postalCode sanitized, i_message = Some (message sanitized),
      i_transactionId = transactionId, i_status = Some ''pending''\<rparr>"

definition serverError :: Response where
  "serverError =
     \<lparr>statusCode = 500,
      body = Errors ''Internal server error. Please try again later.''
               [\<lparr>err_field = ''general'', err_message = ''Server error occurred''\<rparr>]\<rparr>"

definition post_payment :: "Storage \<Rightarrow> Effects \<Rightarrow> PaymentFormData \<Rightarrow> Response \<times> Storage" where
  \<comment> \<open>\<open>app.post('/api/payment')\<close>; while the handler awaits the delay of the simulated
      gateway, the storage goes from \<open>created\<close> to \<open>duringDelay fx created\<close>\<close>
  "post_payment storage fx formData =
     (let sanitized = sanitizedData formData;
          validationErrors = validatePaymentForm (validationDate fx) sanitized
      in if length validationErrors > 0
         then (\<lparr>statusCode = 400, body = Errors ''Validation failed'' validationErrors\<rparr>, storage)
         else
           (let transactionId = transactionId_of (dateNow fx) (randomText fx)
            in case storage_createPayment storage (pendingPayment sanitized transactionId)
                      (createdClock fx) of
                 (Inl thrown, created) \<Rightarrow> (serverError, created)
               | (Inr paymentRecord, created) \<Rightarrow>
                   if shouldFail fx
                   then
                     (case storage_updatePayment (duringDelay fx created) (p_id paymentRecord)
                             (statusOnly ''failed'') (updatedClock fx) of
                        (failedPayment, storage2) \<Rightarrow>
                          (\<lparr>statusCode = 422,
                            body = Errors
                              (''Payment could not be processed. Please try again or use ''
                               @ ''a different payment method.'')
                              [\<lparr>err_field = ''cardNumber'', err_message = ''Card was declined''\<rparr>]\<rparr>,
                           storage2))
                   else
                     (case storage_updatePayment (duringDelay fx created) (p_id paymentRecord)
                             (statusOnly ''completed'') (updatedClock fx) of
                        (completedPayment, storage2) \<Rightarrow>
                          (\<lparr>statusCode = 200,
                            body = PaymentProcessed
                              (''Payment of $'' @ amount sanitized @ '' processed successfully!'')
                              (p_transactionId paymentRecord)
                              (p_id paymentRecord)
                              (amount sanitized)
                              (email sanitized)
                              (firstName sanitized @ '' '' @ lastName sanitized)
                              (case completedPayment of
                                 None \<Rightarrow> ''completed''
                               | Some payment \<Rightarrow>
                                   if p_status payment = [] then ''completed''
                                   else p_status payment)\<rparr>,
                           storage2))))"

fun join :: "string \<Rightarrow> string list \<Rightarrow> string" where
  "join separator [] = []"
| "join separator [x] = x"
| "join separator (x # y # ys) = x @ separator @ join separator (y # ys)"

definition validStatuses :: "string list" where
  "validStatuses = [''pending'', ''completed'', ''failed'', ''refunded'']"

definition patch_payment_status ::
  "Storage \<Rightarrow> string \<Rightarrow> string option \<Rightarrow> int \<Rightarrow> Response \<times> Storage" where
  \<comment> \<open>\<open>app.patch('/api/payment/:id/status')\<close>, from the parameter \<open>id\<close>, the property
      \<open>status\<close> of the body and the clock. \<open>status\<close> is \<^const>\<open>None\<close> when the body
      has no string there; \<open>sanitizeInput\<close> then throws a \<open>TypeError\<close>, which the
      handler catches.\<close>
  "patch_payment_status storage ident status now =
     (let paymentId = parseInt ident
      in case status of
           None \<Rightarrow>
             (\<lparr>statusCode = 500, body = Failure ''Error updating payment status''\<rparr>, storage)
         | Some statusText \<Rightarrow>
             (let sanitizedStatus = sanitizeInput statusText
              in case paymentId of
                   None \<Rightarrow>
                     (\<lparr>statusCode = 400, body = Failure ''Invalid payment ID''\<rparr>, storage)
                 | Some paymentNumber \<Rightarrow>
                     if sanitizedStatus \<notin> set validStatuses
                     then
                       (\<lparr>statusCode = 400,
                         body = Failure
                           (''Invalid status. Must be one of: '' @ join '', '' validStatuses)\<rparr>,
                        storage)
                     else
                       (case storage_updatePayment storage paymentNumber
                               (statusOnly sanitizedStatus) now of
                          (None, storage1) \<Rightarrow>
                            (\<lparr>statusCode = 404, body = Failure ''Payment not found''\<rparr>, storage1)
                        | (Some updatedPayment, storage1) \<Rightarrow>
                            (\<lparr>statusCode = 200,
                              body = StatusUpdated
                                (''Payment status updated to '' @ sanitizedStatus)
                                (p_id updatedPayment)
                                (p_transactionId updatedPayment)
                                (p_status updatedPayment)
                                (p_updatedAt updatedPayment)\<rparr>,
                             storage1))))"

section \<open>Statements of the specification\<close>

definition masked_all_but_last4 :: "string \<Rightarrow> string \<Rightarrow> bool" where
  \<comment> \<open>\<open>stored\<close> is \<open>original\<close> with all but the last 4 characters replaced by the
      mask character\<close>
  "masked_all_but_last4 original stored =
     (stored = replicate (length original - 4) CHR ''*'' @ drop (length original - 4) original)"

definition masked_as_stored :: "string \<Rightarrow> string \<Rightarrow> bool" where
  \<comment> \<open>\<open>stored\<close> has the length of \<open>original\<close>; it is \<open>original\<close> with all but the
      last 4 characters masked when \<open>original\<close> has 4 characters or more, and masked
      throughout otherwise; before its last 4 characters there are mask characters only\<close>
  "masked_as_stored original stored =
     (length stored = length original
      \<and> (if length original < 4 then stored = replicate (length original) CHR ''*''
         else masked_all_but_last4 original stored)
      \<and> list_all (\<lambda>c. c = CHR ''*'') (take (length stored - 4) stored))"


definition updated_not_before_created :: "Payment \<Rightarrow> bool" where
  \<comment> \<open>\<open>updatedAt >= createdAt\<close>\<close>
  "updated_not_before_created payment = (p_createdAt payment \<le> p_updatedAt payment)"

definition final_status :: "Effects \<Rightarrow> string" where
  \<comment> \<open>the status that the pipeline gives the payment at its end\<close>
  "final_status fx = (if shouldFail fx then ''failed'' else ''completed'')"


section \<open>Sample data\<close>

definition sample_date :: CurrentDate where
  \<comment> \<open>a day of November 2026\<close>
  "sample_date = \<lparr>getFullYear = 2026, getMonth = 10\<rparr>"

definition sample_form :: PaymentFormData where
  "sample_form =
     \<lparr>cardNumber = ''4111111111111111'', cvc = ''123'', expiryDate = ''12/30'',
      amount = ''10.00'', firstName = ''Ada'', lastName = ''Byron'',
      email = ''Ada@Example.com'', city = ''London'', state = ''LN'',
      postalCode = ''12345'', message = []\<rparr>"

definition sample_effects :: "bool \<Rightarrow> (Storage \<Rightarrow> Storage) \<Rightarrow> Effects" where
  "sample_effects declined others =
     \<lparr>validationDate = sample_date, dateNow = 1700, randomText = ''0.4fzyo82mvyr'',
      createdClock = 1701, duringDelay = others, shouldFail = declined,
      updatedClock = 3201\<rparr>"

definition no_other_request :: "Storage \<Rightarrow> Storage" where
  "no_other_request storage = storage"

definition delete_first_payment :: "Storage \<Rightarrow> Storage" where
  \<comment> \<open>a request \<open>DELETE /api/payment/1\<close>\<close>
  "delete_first_payment storage = snd (storage_deletePayment storage 1)"

definition sample_insert :: InsertPayment where
  "sample_insert = pendingPayment (sanitizedData sample_form) ''TXN-1700-4fzyo82mv''"

definition empty_database :: DatabaseStorage where
  "empty_database = \<lparr>payments_rows = [], payments_id_seq = 1\<rparr>"


section \<open>Card number masking\<close>

lemma Db_maskCardNumber_eq: "Db_maskCardNumber s = maskCardNumber s"
  by (simp add: Db_maskCardNumber_def maskCardNumber_def)

lemma maskCardNumber_as_stored: "masked_as_stored (removeWhiteSpace s) (maskCardNumber s)"
  by (simp add: masked_as_stored_def masked_all_but_last4_def maskCardNumber_def Let_def
      list_all_iff)

lemma maskCardNumber_example: "maskCardNumber ''4111111111111111'' = ''************1111''"
  by code_simp

lemma Mem_createPayment_stored:
  "Mem_createPayment m ins now = (p, m') \<Longrightarrow>
     Mem_getPayment m' (p_id p) = Some p \<and> p_cardNumber p = maskCardNumber (i_cardNumber ins)"
  by (auto simp: Mem_createPayment_def Mem_getPayment_def Let_def update_conv')

lemma Db_createPayment_stored:
  assumes "Db_createPayment d ins now = (Inr q, d')"
  shows "Db_getPayment d' (p_id q) = Some q \<and> p_cardNumber q = maskCardNumber (i_cardNumber ins)"
proof -
  let ?ident = "payments_id_seq d"
  from assms have fresh:
    "\<not> list_ex (\<lambda>r. p_id r = ?ident \<or> p_transactionId r = i_transactionId ins) (payments_rows d)"
    by (auto simp: Db_createPayment_def Let_def split: if_splits)
  then have none: "filter (\<lambda>r. p_id r = ?ident) (payments_rows d) = []"
    by (auto simp: list_ex_iff filter_empty_conv)
  from assms fresh have q: "p_id q = ?ident" and rows: "payments_rows d' = payments_rows d @ [q]"
    and card: "p_cardNumber q = maskCardNumber (i_cardNumber ins)"
    by (auto simp: Db_createPayment_def Let_def Db_maskCardNumber_eq split: if_splits)
  show ?thesis
    using none q rows card by (simp add: Db_getPayment_def first_row_def)
qed

text \<open>
  Claim C9. \<open>maskCardNumber\<close> on an input that has fewer than 4 characters once its
  white space is removed returns that many mask characters and nothing else; on an
  input that has exactly 4 characters then, it returns these 4 characters, none of
  them masked.
\<close>

theorem maskCardNumber_short_and_four:
  "(length (removeWhiteSpace s) < 4 \<longrightarrow>
      maskCardNumber s = replicate (length (removeWhiteSpace s)) CHR ''*'')
   \<and> (length (removeWhiteSpace s) = 4 \<longrightarrow> maskCardNumber s = removeWhiteSpace s)"
  by (simp add: maskCardNumber_def Let_def)

theorem maskCardNumber_short_and_four_witness:
  "length (removeWhiteSpace ''1 2'') < 4 \<and> maskCardNumber ''1 2'' = ''**''
   \<and> length (removeWhiteSpace ''12 34'') = 4 \<and> maskCardNumber ''12 34'' = ''1234''"
proof -
  have a: "removeWhiteSpace ''1 2'' = ''12''" by code_simp
  have b: "removeWhiteSpace ''12 34'' = ''1234''" by code_simp
  from maskCardNumber_short_and_four [of "''1 2''"] maskCardNumber_short_and_four [of "''12 34''"]
  show ?thesis unfolding a b by (simp add: numeral_2_eq_2)
qed

text \<open>
  Claim C1, as the specification states it: the card number that \<open>createPayment\<close>
  stores is the input without its white space, with all but the last 4 characters
  replaced by the mask character. A card number of 3 characters refutes it: the
  statement keeps the 3 characters, the program stores 3 mask characters.
\<close>

theorem createPayment_masks_all_but_last4_counterexample:
  "\<not> masked_all_but_last4 (removeWhiteSpace ''123'')
      (p_cardNumber (fst (Mem_createPayment MemStorage_new
         (sample_insert\<lparr>i_cardNumber := ''123''\<rparr>) 1701)))"
  by code_simp

text \<open>
  Claim C1, amended. In both storages the payment that \<open>createPayment\<close> returns is the
  one stored under its id, and its card number has the length of the input without
  white space: when that input has at least 4 characters it is the input with all but
  the last 4 characters masked, and when it has fewer every character is masked. So
  no stored card number shows more than the last 4 characters, and the input
  \<open>4111111111111111\<close> is stored as \<open>************1111\<close>.
\<close>

theorem createPayment_stores_masked_cardNumber:
  "(Mem_createPayment m ins now = (p, m') \<longrightarrow>
      Mem_getPayment m' (p_id p) = Some p
      \<and> masked_as_stored (removeWhiteSpace (i_cardNumber ins)) (p_cardNumber p)
      \<and> (i_cardNumber ins = ''4111111111111111'' \<longrightarrow> p_cardNumber p = ''************1111''))
   \<and> (Db_createPayment d ins now = (Inr q, d') \<longrightarrow>
      Db_getPayment d' (p_id q) = Some q
      \<and> masked_as_stored (removeWhiteSpace (i_cardNumber ins)) (p_cardNumber q)
      \<and> (i_cardNumber ins = ''4111111111111111'' \<longrightarrow> p_cardNumber q = ''************1111''))"
  using Mem_createPayment_stored [of m ins now p m'] Db_createPayment_stored [of d ins now q d']
  by (auto simp: maskCardNumber_as_stored maskCardNumber_example)

theorem createPayment_stores_masked_cardNumber_witness:
  "i_cardNumber sample_insert = ''4111111111111111''
   \<and> p_cardNumber (fst (Mem_createPayment MemStorage_new sample_insert 1701))
       = ''************1111''
   \<and> Mem_getPayment (snd (Mem_createPayment MemStorage_new sample_insert 1701)) 1
       = Some (fst (Mem_createPayment MemStorage_new sample_insert 1701))
   \<and> \<not> isl (fst (Db_createPayment empty_database sample_insert 1701))
   \<and> p_cardNumber (projr (fst (Db_createPayment empty_database sample_insert 1701)))
       = ''************1111''
   \<and> Db_getPayment (snd (Db_createPayment empty_database sample_insert 1701)) 1
       = Some (projr (fst (Db_createPayment empty_database sample_insert 1701)))"
proof -
  let ?mem = "Mem_createPayment MemStorage_new sample_insert 1701"
  let ?db = "Db_createPayment empty_database sample_insert 1701"
  have card: "i_cardNumber sample_insert = ''4111111111111111''"
    by code_simp
  have mem_id: "p_id (fst ?mem) = 1"
    by (simp add: Mem_createPayment_def MemStorage_new_def Let_def)
  have inserted: "\<not> isl (fst ?db)"
    by (simp add: Db_createPayment_def empty_database_def Let_def)
  have db_id: "p_id (projr (fst ?db)) = 1"
    by (simp add: Db_createPayment_def empty_database_def Let_def)
  have mem_run: "?mem = (fst ?mem, snd ?mem)"
    by simp
  from inserted have db_run: "?db = (Inr (projr (fst ?db)), snd ?db)"
    by (cases "fst ?db") (simp_all add: prod_eq_iff)
  from createPayment_stores_masked_cardNumber
         [of MemStorage_new sample_insert 1701 "fst ?mem" "snd ?mem"
             empty_database "projr (fst ?db)" "snd ?db"]
       mem_run db_run card mem_id db_id inserted
  show ?thesis by simp
qed


section \<open>Form validation\<close>





















section \<open>The in-memory storage: updates, ids and timestamps\<close>

lemma set_update_subset: "set (AList.update k v al) \<subseteq> insert (k, v) (set al)"
  by (induction al) auto

lemma set_delete_subset: "set (AList.delete k al) \<subseteq> set al"
  by (auto simp: AList.delete_eq)

lemma spreadUpdate_createdAt [simp]: "p_createdAt (spreadUpdate p d) = p_createdAt p"
  by (simp add: spreadUpdate_def)

lemma spreadUpdate_id [simp]: "p_id (spreadUpdate p d) = p_id p"
  by (simp add: spreadUpdate_def)

lemma spreadUpdate_transactionId [simp]: "p_transactionId (spreadUpdate p d) = p_transactionId p"
  by (simp add: spreadUpdate_def)

lemma spreadUpdate_statusOnly [simp]: "p_status (spreadUpdate p (statusOnly s)) = s"
  by (simp add: spreadUpdate_def statusOnly_def or_else_def)

lemma Mem_run_snoc: "Mem_run m (ops @ [op]) = Mem_exec (Mem_run m ops) op"
  by (simp add: Mem_run_def)

lemma Db_updatePayment_missing:
  "Db_getPayment d i = None \<Longrightarrow> Db_updatePayment d i u now = (None, d)"
proof -
  assume "Db_getPayment d i = None"
  then have none: "filter (\<lambda>r. p_id r = i) (payments_rows d) = []"
    by (simp add: Db_getPayment_def first_row_def split: list.splits)
  then have "\<forall>r \<in> set (payments_rows d). p_id r \<noteq> i"
    by (simp add: filter_empty_conv)
  then have same: "map (\<lambda>r. if p_id r = i then (spreadUpdate r u)\<lparr>p_updatedAt := now\<rparr> else r)
      (payments_rows d) = payments_rows d"
    by (simp add: map_idI)
  show ?thesis
    by (simp add: Db_updatePayment_def Let_def same none first_row_def)
qed

text \<open>
  Claim C7. In the in-memory storage, \<open>updatePayment\<close> and \<open>updateUser\<close> on an id that
  the map does not hold return \<open>undefined\<close> and leave the whole storage as it was: no
  record is created.
\<close>

theorem update_of_missing_id_is_not_found:
  "(Mem_getPayment m i = None \<longrightarrow> Mem_updatePayment m i d now = (None, m))
   \<and> (Mem_getUser m j = None \<longrightarrow> Mem_updateUser m j u = (None, m))"
  by (simp add: Mem_getPayment_def Mem_updatePayment_def Mem_getUser_def Mem_updateUser_def)

theorem update_of_missing_id_is_not_found_witness:
  "Mem_getPayment (snd (Mem_createPayment MemStorage_new sample_insert 1701)) 2 = None
   \<and> Mem_updatePayment (snd (Mem_createPayment MemStorage_new sample_insert 1701)) 2
        (statusOnly ''refunded'') 3201
       = (None, snd (Mem_createPayment MemStorage_new sample_insert 1701))
   \<and> Mem_getUser MemStorage_new 1 = None
   \<and> Mem_updateUser MemStorage_new 1 \<lparr>u_username = Some ''ada'', u_password = None\<rparr>
       = (None, MemStorage_new)"
proof -
  have a: "Mem_getPayment (snd (Mem_createPayment MemStorage_new sample_insert 1701)) 2 = None"
    by (simp add: Mem_getPayment_def Mem_createPayment_def MemStorage_new_def Let_def)
  have b: "Mem_getUser MemStorage_new 1 = None"
    by (simp add: Mem_getUser_def MemStorage_new_def)
  from update_of_missing_id_is_not_found
         [of "snd (Mem_createPayment MemStorage_new sample_insert 1701)" 2
             "statusOnly ''refunded''" 3201]
       update_of_missing_id_is_not_found
         [of MemStorage_new _ _ _ 1 "\<lparr>u_username = Some ''ada'', u_password = None\<rparr>"] a b
  show ?thesis by simp
qed

lemma currentPaymentId_exec: "currentPaymentId m \<le> currentPaymentId (Mem_exec m op)"
  by (cases op)
    (simp_all add: Mem_createUser_def Mem_updateUser_def Mem_deleteUser_def
      Mem_createPayment_def Mem_updatePayment_def Mem_deletePayment_def Let_def
      split: option.splits)

lemma currentPaymentId_run: "currentPaymentId m \<le> currentPaymentId (Mem_run m ops)"
proof (induction ops rule: rev_induct)
  case Nil
  then show ?case by (simp add: Mem_run_def)
next
  case (snoc op ops)
  then show ?case
    using currentPaymentId_exec [of "Mem_run m ops" op] by (simp add: Mem_run_snoc)
qed

lemma created_ids_bounds:
  "list_all (\<lambda>i. currentPaymentId m \<le> i) (created_ids m ops)
   \<and> sorted_wrt (<) (created_ids m ops)"
proof (induction ops arbitrary: m)
  case Nil
  then show ?case by simp
next
  case (Cons op ops)
  let ?next = "Mem_exec m op"
  from Cons.IH [of ?next]
  have later: "list_all (\<lambda>i. currentPaymentId ?next \<le> i) (created_ids ?next ops)"
    and sorted: "sorted_wrt (<) (created_ids ?next ops)"
    by simp_all
  show ?case
  proof (cases "\<exists>insertPayment now. op = CreatePaymentOp insertPayment now")
    case True
    then obtain insertPayment now where op: "op = CreatePaymentOp insertPayment now"
      by blast
    have ident: "p_id (fst (Mem_createPayment m insertPayment now)) = currentPaymentId m"
      by (simp add: Mem_createPayment_def Let_def)
    have counter: "currentPaymentId ?next = currentPaymentId m + 1"
      by (simp add: op Mem_createPayment_def Let_def)
    from later have "list_all (\<lambda>i. currentPaymentId m \<le> i) (created_ids ?next ops)"
      and "\<forall>i \<in> set (created_ids ?next ops). currentPaymentId m < i"
      unfolding counter by (auto simp: list_all_iff)
    with sorted show ?thesis
      unfolding op by (simp add: ident)
  next
    case False
    then have same: "created_ids m (op # ops) = created_ids ?next ops"
      by (cases op) simp_all
    from later currentPaymentId_exec [of m op]
    have "list_all (\<lambda>i. currentPaymentId m \<le> i) (created_ids ?next ops)"
      by (auto simp: list_all_iff)
    with sorted show ?thesis
      unfolding same by simp
  qed
qed

text \<open>
  Claim C10. In the in-memory storage the counter of payment ids never decreases, and
  through any run of operations, deletions among them, every call of
  \<open>createPayment\<close> returns an id greater than all the ids returned before it: the
  ids are strictly increasing, hence distinct, and none is below the counter at the
  start of the run. The storage starts with the counter at 1.
\<close>

theorem created_payment_ids_strictly_increase:
  "sorted_wrt (<) (created_ids m ops)
   \<and> distinct (created_ids m ops)
   \<and> list_all (\<lambda>i. currentPaymentId m \<le> i) (created_ids m ops)
   \<and> currentPaymentId m \<le> currentPaymentId (Mem_run m ops)
   \<and> currentPaymentId MemStorage_new = 1"
proof -
  have "sorted_wrt (<) (created_ids m ops)"
    using created_ids_bounds [of m ops] by simp
  moreover from this have "distinct (created_ids m ops)"
    by (simp add: strict_sorted_iff)
  ultimately show ?thesis
    using created_ids_bounds [of m ops] currentPaymentId_run [of m ops]
    by (simp add: MemStorage_new_def)
qed

lemma Mem_createPayment_payments:
  "payments (snd (Mem_createPayment m ins now))
     = AList.update (currentPaymentId m) (fst (Mem_createPayment m ins now)) (payments m)"
  by (simp add: Mem_createPayment_def Let_def)

lemma Mem_createPayment_fields:
  "p_id (fst (Mem_createPayment m ins now)) = currentPaymentId m"
  "p_createdAt (fst (Mem_createPayment m ins now)) = now"
  "p_updatedAt (fst (Mem_createPayment m ins now)) = now"
  "currentPaymentId (snd (Mem_createPayment m ins now)) = currentPaymentId m + 1"
  by (simp_all add: Mem_createPayment_def Let_def)

lemma Mem_exec_invariant:
  assumes inv: "\<forall>(k, p) \<in> set (payments m).
             k < currentPaymentId m \<and> p_createdAt p \<le> p_updatedAt p \<and> p_updatedAt p \<in> R"
    and clock: "\<forall>x \<in> R. \<forall>y \<in> set (clock_readings op). x \<le> y"
  shows "\<forall>(k, p) \<in> set (payments (Mem_exec m op)).
           k < currentPaymentId (Mem_exec m op) \<and> p_createdAt p \<le> p_updatedAt p
           \<and> p_updatedAt p \<in> R \<union> set (clock_readings op)"
proof (cases op)
  case (CreateUserOp insertUser)
  with inv show ?thesis by (simp add: Mem_createUser_def Let_def)
next
  case (UpdateUserOp ident userData)
  with inv show ?thesis by (simp add: Mem_updateUser_def Let_def split: option.splits)
next
  case (DeleteUserOp ident)
  with inv show ?thesis by (simp add: Mem_deleteUser_def)
next
  case (CreatePaymentOp insertPayment now)
  show ?thesis
  proof (clarify)
    fix k p
    assume "(k, p) \<in> set (payments (Mem_exec m op))"
    then have "(k, p) \<in> set (AList.update (currentPaymentId m)
        (fst (Mem_createPayment m insertPayment now)) (payments m))"
      by (simp add: CreatePaymentOp Mem_createPayment_payments)
    then have "(k, p) \<in> insert (currentPaymentId m, fst (Mem_createPayment m insertPayment now))
        (set (payments m))"
      by (rule subsetD [OF set_update_subset])
    then show "k < currentPaymentId (Mem_exec m op) \<and> p_createdAt p \<le> p_updatedAt p
        \<and> p_updatedAt p \<in> R \<union> set (clock_readings op)"
      using inv by (auto simp: CreatePaymentOp Mem_createPayment_fields)
  qed
next
  case (UpdatePaymentOp ident paymentData now)
  show ?thesis
  proof (cases "map_of (payments m) ident")
    case None
    with inv show ?thesis
      by (auto simp: UpdatePaymentOp Mem_updatePayment_def)
  next
    case (Some existing)
    then have held: "(ident, existing) \<in> set (payments m)"
      by (rule map_of_SomeD)
    with inv have old: "ident < currentPaymentId m" "p_createdAt existing \<le> p_updatedAt existing"
      "p_updatedAt existing \<in> R"
      by auto
    with clock have fresh: "p_updatedAt existing \<le> now"
      by (simp add: UpdatePaymentOp)
    let ?updated = "(spreadUpdate existing paymentData)\<lparr>p_updatedAt := now\<rparr>"
    show ?thesis
    proof (clarify)
      fix k p
      assume "(k, p) \<in> set (payments (Mem_exec m op))"
      then have "(k, p) \<in> set (AList.update ident ?updated (payments m))"
        by (simp add: UpdatePaymentOp Mem_updatePayment_def Some Let_def)
      then have "(k, p) \<in> insert (ident, ?updated) (set (payments m))"
        by (rule subsetD [OF set_update_subset])
      moreover have "currentPaymentId (Mem_exec m op) = currentPaymentId m"
        by (simp add: UpdatePaymentOp Mem_updatePayment_def Some Let_def)
      ultimately show "k < currentPaymentId (Mem_exec m op) \<and> p_createdAt p \<le> p_updatedAt p
          \<and> p_updatedAt p \<in> R \<union> set (clock_readings op)"
        using inv old fresh by (auto simp: UpdatePaymentOp)
    qed
  qed
next
  case (DeletePaymentOp ident)
  with inv show ?thesis
    using set_delete_subset [of ident "payments m"]
    by (auto simp: Mem_deletePayment_def)
qed

lemma Mem_run_invariant:
  "sorted (concat (map clock_readings ops)) \<Longrightarrow>
     \<forall>(k, p) \<in> set (payments (Mem_run MemStorage_new ops)).
        k < currentPaymentId (Mem_run MemStorage_new ops)
        \<and> p_createdAt p \<le> p_updatedAt p
        \<and> p_updatedAt p \<in> set (concat (map clock_readings ops))"
proof (induction ops rule: rev_induct)
  case Nil
  then show ?case by (simp add: Mem_run_def MemStorage_new_def)
next
  case (snoc op ops)
  let ?rs = "concat (map clock_readings ops)"
  from snoc.prems have sorted_rs: "sorted ?rs"
    and before: "\<forall>x \<in> set ?rs. \<forall>y \<in> set (clock_readings op). x \<le> y"
    by (simp_all add: sorted_append)
  from Mem_exec_invariant [OF snoc.IH [OF sorted_rs] before]
  show ?case by (simp add: Mem_run_snoc Un_commute)
qed

lemma Mem_exec_createdAt:
  assumes keys: "\<forall>(k, p) \<in> set (payments m). k < currentPaymentId m"
    and old: "Mem_getPayment m i = Some old"
    and new: "Mem_getPayment (Mem_exec m op) i = Some new"
  shows "p_createdAt new = p_createdAt old"
proof (cases op)
  case (CreateUserOp insertUser)
  with old new show ?thesis by (simp add: Mem_getPayment_def Mem_createUser_def Let_def)
next
  case (UpdateUserOp ident userData)
  with old new show ?thesis
    by (simp add: Mem_getPayment_def Mem_updateUser_def Let_def split: option.splits)
next
  case (DeleteUserOp ident)
  with old new show ?thesis by (simp add: Mem_getPayment_def Mem_deleteUser_def)
next
  case (CreatePaymentOp insertPayment now)
  from old have "(i, old) \<in> set (payments m)"
    by (simp add: Mem_getPayment_def map_of_SomeD)
  with keys have "i \<noteq> currentPaymentId m" by auto
  with old new show ?thesis
    by (simp add: CreatePaymentOp Mem_getPayment_def Mem_createPayment_payments update_conv')
next
  case (UpdatePaymentOp ident paymentData now)
  with old new show ?thesis
    by (cases "ident = i")
      (auto simp: Mem_getPayment_def Mem_updatePayment_def Let_def update_conv'
        split: option.splits)
next
  case (DeletePaymentOp ident)
  with old new show ?thesis
    by (cases "ident = i") (auto simp: Mem_getPayment_def Mem_deletePayment_def delete_conv')
qed

text \<open>
  Claim C6, as the specification states it: every stored payment has
  \<open>updatedAt \<ge> createdAt\<close>, and a successful update sets \<open>updatedAt\<close> to an
  instant that is not earlier. Both operations stamp what \<open>new Date()\<close> returns and
  nothing compares the two readings: when the clock of the machine is set back
  between them, here from 1701 to 1000, the payment is stored with \<open>updatedAt\<close>
  before \<open>createdAt\<close>.
\<close>

theorem Mem_updatePayment_clock_set_back_counterexample:
  "map p_createdAt
     (Mem_getAllPayments
        (Mem_run MemStorage_new
           [CreatePaymentOp sample_insert 1701,
            UpdatePaymentOp 1 (statusOnly ''completed'') 1000])) = [1701]
   \<and> map p_updatedAt
     (Mem_getAllPayments
        (Mem_run MemStorage_new
           [CreatePaymentOp sample_insert 1701,
            UpdatePaymentOp 1 (statusOnly ''completed'') 1000])) = [1000]
   \<and> \<not> list_all updated_not_before_created
     (Mem_getAllPayments
        (Mem_run MemStorage_new
           [CreatePaymentOp sample_insert 1701,
            UpdatePaymentOp 1 (statusOnly ''completed'') 1000]))"
  by (simp add: Mem_run_def Mem_getAllPayments_def Mem_createPayment_def
      Mem_updatePayment_def MemStorage_new_def Let_def updated_not_before_created_def)

text \<open>
  Claim C6, amended. Let the in-memory storage be reached from the constructor by a
  run of operations whose clock readings never go back, and let one more operation
  follow, its reading no earlier. Then every stored payment has
  \<open>createdAt \<le> updatedAt\<close>, before and after the operation; \<open>createPayment\<close> stores a
  payment whose two timestamps are the instant of the call; a successful
  \<open>updatePayment\<close> stores the payment with \<open>updatedAt\<close> set to the instant of the
  call, which is no earlier than the former \<open>updatedAt\<close>, and with the former
  \<open>createdAt\<close>; and no operation changes the \<open>createdAt\<close> of a payment that it keeps, an update
  setting columns of \<open>UpdatePayment\<close> only.
\<close>

theorem Mem_payment_timestamps:
  assumes clock: "sorted (concat (map clock_readings (ops @ [op])))"
    and reached: "m = Mem_run MemStorage_new ops"
  shows
    "list_all (\<lambda>p. p_createdAt p \<le> p_updatedAt p) (Mem_getAllPayments m)
     \<and> list_all (\<lambda>p. p_createdAt p \<le> p_updatedAt p) (Mem_getAllPayments (Mem_exec m op))
     \<and> (op = CreatePaymentOp ins now \<longrightarrow>
          p_createdAt (fst (Mem_createPayment m ins now)) = now
          \<and> p_updatedAt (fst (Mem_createPayment m ins now)) = now
          \<and> Mem_getPayment (Mem_exec m op) (p_id (fst (Mem_createPayment m ins now)))
              = Some (fst (Mem_createPayment m ins now)))
     \<and> (op = UpdatePaymentOp i d now \<and> fst (Mem_updatePayment m i d now) = Some updated \<longrightarrow>
          Mem_getPayment (Mem_exec m op) i = Some updated
          \<and> p_updatedAt updated = now
          \<and> (\<exists>old. Mem_getPayment m i = Some old \<and> p_updatedAt old \<le> now
                \<and> p_createdAt updated = p_createdAt old))
     \<and> (Mem_getPayment m j = Some before \<and> Mem_getPayment (Mem_exec m op) j = Some after \<longrightarrow>
          p_createdAt after = p_createdAt before)"
proof -
  let ?rs = "concat (map clock_readings ops)"
  from clock have sorted_rs: "sorted ?rs"
    and later: "\<forall>x \<in> set ?rs. \<forall>y \<in> set (clock_readings op). x \<le> y"
    by (simp_all add: sorted_append)
  have inv: "\<forall>(k, p) \<in> set (payments m).
      k < currentPaymentId m \<and> p_createdAt p \<le> p_updatedAt p \<and> p_updatedAt p \<in> set ?rs"
    unfolding reached by (rule Mem_run_invariant [OF sorted_rs])
  have inv': "\<forall>(k, p) \<in> set (payments (Mem_exec m op)). p_createdAt p \<le> p_updatedAt p"
    using Mem_run_invariant [OF clock] by (auto simp: reached Mem_run_snoc)
  have c1: "list_all (\<lambda>p. p_createdAt p \<le> p_updatedAt p) (Mem_getAllPayments m)"
    using inv by (auto simp: Mem_getAllPayments_def list_all_iff)
  have c2: "list_all (\<lambda>p. p_createdAt p \<le> p_updatedAt p) (Mem_getAllPayments (Mem_exec m op))"
    using inv' by (auto simp: Mem_getAllPayments_def list_all_iff)
  have c3: "op = CreatePaymentOp ins now \<longrightarrow>
          p_createdAt (fst (Mem_createPayment m ins now)) = now
          \<and> p_updatedAt (fst (Mem_createPayment m ins now)) = now
          \<and> Mem_getPayment (Mem_exec m op) (p_id (fst (Mem_createPayment m ins now)))
              = Some (fst (Mem_createPayment m ins now))"
    by (simp add: Mem_createPayment_fields Mem_createPayment_payments Mem_getPayment_def
        update_conv')
  have c4: "op = UpdatePaymentOp i d now \<and> fst (Mem_updatePayment m i d now) = Some updated \<longrightarrow>
          Mem_getPayment (Mem_exec m op) i = Some updated
          \<and> p_updatedAt updated = now
          \<and> (\<exists>old. Mem_getPayment m i = Some old \<and> p_updatedAt old \<le> now
                \<and> p_createdAt updated = p_createdAt old)"
  proof (intro impI, elim conjE)
    assume op: "op = UpdatePaymentOp i d now"
      and ok: "fst (Mem_updatePayment m i d now) = Some updated"
    from ok obtain old where old: "map_of (payments m) i = Some old"
      and updated: "updated = (spreadUpdate old d)\<lparr>p_updatedAt := now\<rparr>"
      by (auto simp: Mem_updatePayment_def Let_def split: option.splits)
    from old have "(i, old) \<in> set (payments m)" by (rule map_of_SomeD)
    with inv have "p_updatedAt old \<in> set ?rs" by auto
    with later op have "p_updatedAt old \<le> now" by auto
    with old updated op show "Mem_getPayment (Mem_exec m op) i = Some updated
          \<and> p_updatedAt updated = now
          \<and> (\<exists>old. Mem_getPayment m i = Some old \<and> p_updatedAt old \<le> now
                \<and> p_createdAt updated = p_createdAt old)"
      by (simp add: Mem_getPayment_def Mem_updatePayment_def Let_def update_conv')
  qed
  have c5: "Mem_getPayment m j = Some before \<and> Mem_getPayment (Mem_exec m op) j = Some after \<longrightarrow>
          p_createdAt after = p_createdAt before"
    using Mem_exec_createdAt [of m j before op after] inv by auto
  show ?thesis
    by (intro conjI c1 c2 c3 c4 c5)
qed

theorem Mem_payment_timestamps_witness:
  "sorted (concat (map clock_readings
      ([CreatePaymentOp sample_insert 1701]
       @ [UpdatePaymentOp 1 (statusOnly ''completed'') 3201])))
   \<and> list_all (\<lambda>p. p_createdAt p \<le> p_updatedAt p)
       (Mem_getAllPayments
         (Mem_exec (Mem_run MemStorage_new [CreatePaymentOp sample_insert 1701])
           (UpdatePaymentOp 1 (statusOnly ''completed'') 3201)))
   \<and> fst (Mem_updatePayment (Mem_run MemStorage_new [CreatePaymentOp sample_insert 1701]) 1
          (statusOnly ''completed'') 3201) \<noteq> None
   \<and> p_updatedAt (the (fst (Mem_updatePayment
          (Mem_run MemStorage_new [CreatePaymentOp sample_insert 1701]) 1
          (statusOnly ''completed'') 3201))) = 3201
   \<and> p_createdAt (the (Mem_getPayment
          (Mem_exec (Mem_run MemStorage_new [CreatePaymentOp sample_insert 1701])
            (UpdatePaymentOp 1 (statusOnly ''completed'') 3201)) 1))
       = p_createdAt (the (Mem_getPayment
          (Mem_run MemStorage_new [CreatePaymentOp sample_insert 1701]) 1))"
proof -
  let ?m = "Mem_run MemStorage_new [CreatePaymentOp sample_insert 1701]"
  let ?d = "statusOnly ''completed''"
  let ?op = "UpdatePaymentOp 1 ?d 3201"
  have clock: "sorted (concat (map clock_readings ([CreatePaymentOp sample_insert 1701] @ [?op])))"
    by simp
  have held: "Mem_getPayment ?m 1 \<noteq> None"
    by (simp add: Mem_run_def Mem_getPayment_def Mem_createPayment_def MemStorage_new_def
        Let_def)
  then have updated: "fst (Mem_updatePayment ?m 1 ?d 3201) \<noteq> None"
    by (auto simp: Mem_getPayment_def Mem_updatePayment_def Let_def split: option.splits)
  have kept: "Mem_getPayment (Mem_exec ?m ?op) 1 \<noteq> None"
    using held
    by (auto simp: Mem_getPayment_def Mem_updatePayment_def Let_def update_conv'
        split: option.splits)
  note main = Mem_payment_timestamps [OF clock refl,
      where i = 1 and d = ?d and now = 3201
        and updated = "the (fst (Mem_updatePayment ?m 1 ?d 3201))"
        and j = 1 and before = "the (Mem_getPayment ?m 1)"
        and after = "the (Mem_getPayment (Mem_exec ?m ?op) 1)"]
  note c2 = main [THEN conjunct2, THEN conjunct1]
  note c4 = main [THEN conjunct2, THEN conjunct2, THEN conjunct2, THEN conjunct1]
  note c5 = main [THEN conjunct2, THEN conjunct2, THEN conjunct2, THEN conjunct2]
  note r4 = c4 [THEN mp, OF conjI [OF refl option.collapse [OF updated, symmetric]]]
  note r5 = c5 [THEN mp, OF conjI [OF option.collapse [OF held, symmetric]
      option.collapse [OF kept, symmetric]]]
  show ?thesis
    by (intro conjI clock c2 updated r4 [THEN conjunct2, THEN conjunct1] r5)
qed


section \<open>The request handlers: submission and status update\<close>

lemma Mem_updatePayment_result:
  "fst (Mem_updatePayment m i u t)
     = map_option (\<lambda>q. (spreadUpdate q u)\<lparr>p_updatedAt := t\<rparr>) (Mem_getPayment m i)
   \<and> Mem_getPayment (snd (Mem_updatePayment m i u t)) i
     = map_option (\<lambda>q. (spreadUpdate q u)\<lparr>p_updatedAt := t\<rparr>) (Mem_getPayment m i)"
  by (simp add: Mem_updatePayment_def Mem_getPayment_def Let_def update_conv'
      split: option.splits)

lemma first_row_of_changed_rows:
  "first_row (filter (\<lambda>r. p_id r = i)
       (map (\<lambda>r. if p_id r = i then (spreadUpdate r u)\<lparr>p_updatedAt := t\<rparr> else r) rows))
     = map_option (\<lambda>q. (spreadUpdate q u)\<lparr>p_updatedAt := t\<rparr>)
         (first_row (filter (\<lambda>r. p_id r = i) rows))"
  by (induction rows) (simp_all add: first_row_def)

lemma Db_updatePayment_result:
  "fst (Db_updatePayment d i u t)
     = map_option (\<lambda>q. (spreadUpdate q u)\<lparr>p_updatedAt := t\<rparr>) (Db_getPayment d i)
   \<and> Db_getPayment (snd (Db_updatePayment d i u t)) i
     = map_option (\<lambda>q. (spreadUpdate q u)\<lparr>p_updatedAt := t\<rparr>) (Db_getPayment d i)"
  by (simp add: Db_updatePayment_def Db_getPayment_def Let_def first_row_of_changed_rows)

lemma storage_updatePayment_result:
  "fst (storage_updatePayment storage i u t)
     = map_option (\<lambda>q. (spreadUpdate q u)\<lparr>p_updatedAt := t\<rparr>) (storage_getPayment storage i)
   \<and> storage_getPayment (snd (storage_updatePayment storage i u t)) i
     = map_option (\<lambda>q. (spreadUpdate q u)\<lparr>p_updatedAt := t\<rparr>) (storage_getPayment storage i)"
proof (cases storage)
  case (Mem m)
  with Mem_updatePayment_result [of m i u t] show ?thesis
    by (simp add: case_prod_beta)
next
  case (Db d)
  with Db_updatePayment_result [of d i u t] show ?thesis
    by (simp add: case_prod_beta)
qed

lemma storage_createPayment_created:
  assumes "storage_createPayment storage ins t = (Inr payment, created)"
  shows "p_transactionId payment = i_transactionId ins
    \<and> storage_getPayment created (p_id payment) = Some payment"
proof (cases storage)
  case (Mem m)
  with assms obtain m1 where made: "Mem_createPayment m ins t = (payment, m1)"
    and "created = Mem m1"
    by (auto split: prod.splits)
  moreover from made have "p_transactionId payment = i_transactionId ins"
    by (auto simp: Mem_createPayment_def Let_def)
  ultimately show ?thesis
    using Mem_createPayment_stored [OF made] by simp
next
  case (Db d)
  with assms obtain d1 where made: "Db_createPayment d ins t = (Inr payment, d1)"
    and "created = Db d1"
    by (auto split: prod.splits)
  moreover from made have "p_transactionId payment = i_transactionId ins"
    by (auto simp: Db_createPayment_def Let_def split: if_splits)
  ultimately show ?thesis
    using Db_createPayment_stored [OF made] by simp
qed

lemma post_payment_invalid:
  "validatePaymentForm (validationDate fx) (sanitizedData formData) \<noteq> [] \<Longrightarrow>
     post_payment storage fx formData
       = (\<lparr>statusCode = 400,
           body = Errors ''Validation failed''
                    (validatePaymentForm (validationDate fx) (sanitizedData formData))\<rparr>,
          storage)"
  by (simp add: post_payment_def Let_def)

lemma post_payment_Mem_answers:
  "validatePaymentForm (validationDate fx) (sanitizedData formData) = [] \<Longrightarrow>
     statusCode (fst (post_payment (Mem m) fx formData)) = (if shouldFail fx then 422 else 200)"
  by (simp add: post_payment_def Let_def case_prod_beta)

text \<open>
  Claim C3. Take a submission that passes validation and a run of the submission
  handler on it that does not end in the server error, whatever the other requests do
  to the storage while the handler awaits the gateway. Then the handler has created a
  payment with the generated transaction id, and at the end of the run the storage
  holds under the id of this payment what it held there after the delay, with the
  status set to the final status: \<open>failed\<close> with the response 422 when the gateway
  declines, \<open>completed\<close> with the response 200, which reports \<open>completed\<close>,
  otherwise. So the payment, where it is still stored, is not \<open>pending\<close>; and it is
  stored when no other request has touched the storage during the delay. This holds
  for both storages.
\<close>

theorem post_payment_leaves_no_pending_payment:
  assumes valid: "validatePaymentForm (validationDate fx) (sanitizedData formData) = []"
    and run: "post_payment storage fx formData = (response, storage')"
    and no_error: "statusCode response \<noteq> 500"
  shows "\<exists>paymentRecord created.
           storage_createPayment storage
               (pendingPayment (sanitizedData formData)
                  (transactionId_of (dateNow fx) (randomText fx)))
               (createdClock fx)
             = (Inr paymentRecord, created)
           \<and> p_transactionId paymentRecord = transactionId_of (dateNow fx) (randomText fx)
           \<and> storage_getPayment storage' (p_id paymentRecord)
               = map_option
                   (\<lambda>q. (spreadUpdate q (statusOnly (final_status fx)))
                          \<lparr>p_updatedAt := updatedClock fx\<rparr>)
                   (storage_getPayment (duringDelay fx created) (p_id paymentRecord))
           \<and> (\<forall>payment. storage_getPayment storage' (p_id paymentRecord) = Some payment \<longrightarrow>
                 p_status payment = final_status fx \<and> p_status payment \<noteq> ''pending'')
           \<and> (duringDelay fx created = created \<longrightarrow>
                 storage_getPayment storage' (p_id paymentRecord)
                   = Some ((spreadUpdate paymentRecord (statusOnly (final_status fx)))
                            \<lparr>p_updatedAt := updatedClock fx\<rparr>))
           \<and> (if shouldFail fx
               then statusCode response = 422 \<and> final_status fx = ''failed''
               else statusCode response = 200 \<and> final_status fx = ''completed''
                 \<and> body response
                     = PaymentProcessed
                         (''Payment of $'' @ amount (sanitizedData formData)
                          @ '' processed successfully!'')
                         (p_transactionId paymentRecord) (p_id paymentRecord)
                         (amount (sanitizedData formData)) (email (sanitizedData formData))
                         (firstName (sanitizedData formData) @ '' ''
                          @ lastName (sanitizedData formData))
                         ''completed'')"
proof -
  let ?txn = "transactionId_of (dateNow fx) (randomText fx)"
  let ?ins = "pendingPayment (sanitizedData formData) ?txn"
  let ?final = "\<lambda>q. (spreadUpdate q (statusOnly (final_status fx)))\<lparr>p_updatedAt := updatedClock fx\<rparr>"
  obtain result created where
    create: "storage_createPayment storage ?ins (createdClock fx) = (result, created)"
    by (cases "storage_createPayment storage ?ins (createdClock fx)")
  show ?thesis
  proof (cases result)
    case (Inl thrown)
    with valid run create have "response = serverError"
      by (simp add: post_payment_def Let_def)
    with no_error show ?thesis
      by (simp add: serverError_def)
  next
    case (Inr paymentRecord)
    note made = create [unfolded Inr]
    let ?id = "p_id paymentRecord"
    let ?after = "duringDelay fx created"
    note first = storage_createPayment_created [OF made]
    have txn: "p_transactionId paymentRecord = ?txn"
      using first by (simp add: pendingPayment_def)
    have end_storage: "storage' = snd (storage_updatePayment ?after ?id
        (statusOnly (final_status fx)) (updatedClock fx))"
      using valid run made
      by (cases "shouldFail fx")
        (auto simp: post_payment_def Let_def case_prod_beta final_status_def)
    have stored: "storage_getPayment storage' ?id
        = map_option ?final (storage_getPayment ?after ?id)"
      unfolding end_storage by (rule storage_updatePayment_result [THEN conjunct2])
    have status: "\<forall>payment. storage_getPayment storage' ?id = Some payment \<longrightarrow>
        p_status payment = final_status fx \<and> p_status payment \<noteq> ''pending''"
      unfolding stored by (auto simp: final_status_def)
    have alone: "?after = created \<longrightarrow> storage_getPayment storage' ?id = Some (?final paymentRecord)"
      unfolding stored using first by simp
    have reported: "fst (storage_updatePayment ?after ?id (statusOnly ''completed'')
          (updatedClock fx))
        = map_option (\<lambda>q. (spreadUpdate q (statusOnly ''completed''))
              \<lparr>p_updatedAt := updatedClock fx\<rparr>) (storage_getPayment ?after ?id)"
      by (rule storage_updatePayment_result [THEN conjunct1])
    have answer: "if shouldFail fx
         then statusCode response = 422 \<and> final_status fx = ''failed''
         else statusCode response = 200 \<and> final_status fx = ''completed''
           \<and> body response
               = PaymentProcessed
                   (''Payment of $'' @ amount (sanitizedData formData)
                    @ '' processed successfully!'')
                   (p_transactionId paymentRecord) (p_id paymentRecord)
                   (amount (sanitizedData formData)) (email (sanitizedData formData))
                   (firstName (sanitizedData formData) @ '' ''
                    @ lastName (sanitizedData formData))
                   ''completed''"
    proof (cases "shouldFail fx")
      case True
      with valid run made show ?thesis
        by (auto simp: post_payment_def Let_def case_prod_beta final_status_def)
    next
      case False
      with valid run made reported show ?thesis
        by (cases "storage_getPayment ?after ?id")
          (auto simp: post_payment_def Let_def case_prod_beta final_status_def)
    qed
    show ?thesis
      by (intro exI [of _ paymentRecord] exI [of _ created] conjI made txn stored status
          alone answer)
  qed
qed

theorem post_payment_leaves_no_pending_payment_witness:
  "validatePaymentForm (validationDate (sample_effects False no_other_request))
     (sanitizedData sample_form) = []
   \<and> statusCode (fst (post_payment (Mem MemStorage_new)
         (sample_effects False no_other_request) sample_form)) = 200
   \<and> (\<exists>payment.
         storage_getPayment
           (snd (post_payment (Mem MemStorage_new)
              (sample_effects False no_other_request) sample_form)) 1 = Some payment
         \<and> p_status payment = ''completed'')
   \<and> validatePaymentForm (validationDate (sample_effects True delete_first_payment))
       (sanitizedData sample_form) = []
   \<and> statusCode (fst (post_payment (Db empty_database)
         (sample_effects True delete_first_payment) sample_form)) = 422
   \<and> storage_getPayment
       (snd (post_payment (Db empty_database)
          (sample_effects True delete_first_payment) sample_form)) 1 = None"
proof -
  let ?fx1 = "sample_effects False no_other_request"
  let ?fx2 = "sample_effects True delete_first_payment"
  let ?approved = "post_payment (Mem MemStorage_new) ?fx1 sample_form"
  let ?declined = "post_payment (Db empty_database) ?fx2 sample_form"
  have valid: "validatePaymentForm sample_date (sanitizedData sample_form) = []"
    by code_simp
  have valid1: "validatePaymentForm (validationDate ?fx1) (sanitizedData sample_form) = []"
    using valid by (simp add: sample_effects_def)
  have valid2: "validatePaymentForm (validationDate ?fx2) (sanitizedData sample_form) = []"
    using valid by (simp add: sample_effects_def)
  have code1: "statusCode (fst ?approved) \<noteq> 500"
    by code_simp
  have code2: "statusCode (fst ?declined) \<noteq> 500"
    by code_simp
  have approved: "\<not> shouldFail ?fx1" and declined: "shouldFail ?fx2"
    and alone: "duringDelay ?fx1 = (\<lambda>storage. storage)"
    by (simp_all add: sample_effects_def no_other_request_def fun_eq_iff)
  have first_id: "p_id (projr (fst (storage_createPayment (Mem MemStorage_new)
      (pendingPayment (sanitizedData sample_form)
         (transactionId_of (dateNow ?fx1) (randomText ?fx1)))
      (createdClock ?fx1)))) = 1"
    by (simp add: Mem_createPayment_def MemStorage_new_def Let_def)
  have deleted: "storage_getPayment (snd ?declined) 1 = None"
    by code_simp
  from post_payment_leaves_no_pending_payment [OF valid1 surjective_pairing code1]
  obtain paymentRecord created where
    made: "storage_createPayment (Mem MemStorage_new)
        (pendingPayment (sanitizedData sample_form)
           (transactionId_of (dateNow ?fx1) (randomText ?fx1)))
        (createdClock ?fx1) = (Inr paymentRecord, created)"
    and status: "\<forall>payment. storage_getPayment (snd ?approved) (p_id paymentRecord) = Some payment
        \<longrightarrow> p_status payment = final_status ?fx1 \<and> p_status payment \<noteq> ''pending''"
    and stored: "duringDelay ?fx1 created = created \<longrightarrow>
        storage_getPayment (snd ?approved) (p_id paymentRecord)
          = Some ((spreadUpdate paymentRecord (statusOnly (final_status ?fx1)))
                   \<lparr>p_updatedAt := updatedClock ?fx1\<rparr>)"
    and answer: "if shouldFail ?fx1
        then statusCode (fst ?approved) = 422 \<and> final_status ?fx1 = ''failed''
        else statusCode (fst ?approved) = 200 \<and> final_status ?fx1 = ''completed''
          \<and> body (fst ?approved)
              = PaymentProcessed
                  (''Payment of $'' @ amount (sanitizedData sample_form)
                   @ '' processed successfully!'')
                  (p_transactionId paymentRecord) (p_id paymentRecord)
                  (amount (sanitizedData sample_form)) (email (sanitizedData sample_form))
                  (firstName (sanitizedData sample_form) @ '' ''
                   @ lastName (sanitizedData sample_form))
                  ''completed''"
    by blast
  from made first_id have ident: "p_id paymentRecord = 1"
    by simp
  from answer approved have a1: "statusCode (fst ?approved) = 200"
    and final: "final_status ?fx1 = ''completed''"
    by simp_all
  from stored alone obtain payment where
    held: "storage_getPayment (snd ?approved) (p_id paymentRecord) = Some payment"
    by simp
  with status have "p_status payment = ''completed''"
    unfolding final by blast
  with held have a2: "\<exists>payment. storage_getPayment (snd ?approved) 1 = Some payment
      \<and> p_status payment = ''completed''"
    unfolding ident by blast
  from post_payment_leaves_no_pending_payment [OF valid2 surjective_pairing code2] declined
  have b1: "statusCode (fst ?declined) = 422"
    by auto
  show ?thesis
    by (intro conjI valid1 a1 a2 valid2 b1 deleted)
qed

lemma post_payment_after_delete:
  "statusCode (fst (post_payment (Mem MemStorage_new)
       (sample_effects False delete_first_payment) sample_form)) = 200
   \<and> storage_getPayment
       (snd (post_payment (Mem MemStorage_new)
          (sample_effects False delete_first_payment) sample_form)) 1 = None"
  by code_simp

lemma patch_payment_status_rejects:
  assumes "parseInt ident = None \<or> sanitizeInput statusText \<notin> set validStatuses"
  shows "statusCode (fst (patch_payment_status storage ident (Some statusText) now)) = 400
    \<and> snd (patch_payment_status storage ident (Some statusText) now) = storage"
  using assms by (auto simp: patch_payment_status_def Let_def split: option.splits)

text \<open>
  Claim C8. The claim holds for a request whose body has a string as \<open>status\<close>, as
  the lemma above shows. It fails for the request with the id \<open>abc\<close> and a body
  without \<open>status\<close>: the id is not numeric, \<open>sanitizeInput\<close> throws before the id is
  looked at, and the handler answers 500, not 400; the storage is left as it was.
\<close>

theorem patch_payment_status_without_status:
  "parseInt ''abc'' = None
   \<and> patch_payment_status storage ''abc'' None now
       = (\<lparr>statusCode = 500, body = Failure ''Error updating payment status''\<rparr>, storage)"
proof -
  have "parseInt ''abc'' = None"
    by code_simp
  then show ?thesis
    by (simp add: patch_payment_status_def)
qed

section \<open>Payments by email\<close>

lemma Mem_getPaymentsByEmail_ignores_case:
  "Mem_getPaymentsByEmail m e
     = filter (\<lambda>payment. toLowerCase (p_email payment) = toLowerCase e) (Mem_getAllPayments m)"
  by (simp add: Mem_getPaymentsByEmail_def Mem_getAllPayments_def)

lemma Db_getPaymentsByEmail_exact:
  "Db_getPaymentsByEmail d e = filter (\<lambda>payment. p_email payment = e) (Db_getAllPayments d)"
  by (simp add: Db_getPaymentsByEmail_def Db_getAllPayments_def)

text \<open>
  Claim C4. The in-memory storage compares the emails in lower case. The database
  storage compares them as they are: after the same payment, of email
  \<open>ada@example.com\<close>, has been created in both, the query \<open>ADA@EXAMPLE.COM\<close>, equal
  to it but for the case, finds the payment in memory and nothing in the database.
\<close>

theorem Db_getPaymentsByEmail_misses_other_case:
  "toLowerCase ''ADA@EXAMPLE.COM'' = toLowerCase ''ada@example.com''
   \<and> map p_email (Db_getAllPayments (snd (Db_createPayment empty_database sample_insert 1701)))
       = [''ada@example.com'']
   \<and> Db_getPaymentsByEmail (snd (Db_createPayment empty_database sample_insert 1701))
        ''ADA@EXAMPLE.COM'' = []
   \<and> map p_email
        (Mem_getPaymentsByEmail (snd (Mem_createPayment MemStorage_new sample_insert 1701))
          ''ADA@EXAMPLE.COM'')
       = [''ada@example.com'']"
  by code_simp

section \<open>Transaction ids\<close>

lemma substr_length: "length (substr s 2 9) = min 9 (length s - 2)"
  by (simp add: substr_def min.commute)

lemma transactionId_of_shape:
  "transactionId_of now r = ''TXN-'' @ string_of_int now @ ''-'' @ take 9 (drop 2 r)"
  by (simp add: transactionId_of_def substr_def)

text \<open>
  Claim C5. The suffix of a transaction id is made of the characters 3 to 11 of the
  text of the random number in base 36, so it has 9 characters only when that text
  has 11 or more. The random number 0.5 has the text \<open>0.i\<close> and gives a suffix of 1
  character; the random number 0 has the text \<open>0\<close> and gives an empty suffix.
\<close>

theorem transactionId_of_short_suffix:
  "transactionId_of 1700 ''0.i'' = ''TXN-1700-i''
   \<and> substr ''0.i'' 2 9 = ''i''
   \<and> transactionId_of 1700 ''0'' = ''TXN-1700-''
   \<and> substr ''0'' 2 9 = ''''"
  by code_simp


end
